theory Spec2Isabelle
  imports Main "HOL-Library.AList"
begin

section \<open>Python values, dictionaries and string formatting\<close>

text \<open>
  The two modules \<^verbatim>\<open>sample_api.py\<close> and \<^verbatim>\<open>sample_api_refactored.py\<close> build user
  records out of integers and strings, and the two kinds are never equal to each other,
  as in Python (\<^verbatim>\<open>0 != "0"\<close>). A dictionary handed in by a caller is annotated \<^verbatim>\<open>Dict\<close>
  only, so it can bind a key to any value; a list stands here for the values that cannot
  be hashed. Integers and strings can be dictionary keys. A list cannot: storing or
  looking up under a list raises \<^verbatim>\<open>TypeError\<close>.
\<close>

datatype pyval = PInt int | PStr string | PList "pyval list"

fun hashable :: "pyval \<Rightarrow> bool" where
  "hashable (PInt i) = True"
| "hashable (PStr s) = True"
| "hashable (PList xs) = False"

text \<open>
  A Python \<^verbatim>\<open>dict\<close> keeps its items in insertion order and holds each key once. It is
  modelled as an association list: \<^verbatim>\<open>k in d\<close> is membership among the keys,
  \<^verbatim>\<open>d.get(k)\<close> is \<open>map_of\<close>, \<^verbatim>\<open>d[k]\<close> raises \<^verbatim>\<open>KeyError\<close> on a missing key and
  \<^verbatim>\<open>d[k] = v\<close> replaces the value of an existing key in place or appends a new item.
\<close>

type_synonym ('k, 'v) pydict = "('k \<times> 'v) list"

type_synonym user_dict = "(string, pyval) pydict"

datatype py_error = KeyError | TypeError

definition dict_contains :: "'k \<Rightarrow> ('k, 'v) pydict \<Rightarrow> bool" where
  "dict_contains k d = (k \<in> set (map fst d))"

definition dict_get :: "('k, 'v) pydict \<Rightarrow> 'k \<Rightarrow> 'v option" where
  "dict_get d k = map_of d k"

definition dict_getitem :: "('k, 'v) pydict \<Rightarrow> 'k \<Rightarrow> py_error + 'v" where
  "dict_getitem d k = (case map_of d k of None \<Rightarrow> Inl KeyError | Some v \<Rightarrow> Inr v)"

definition dict_setitem :: "('k, 'v) pydict \<Rightarrow> 'k \<Rightarrow> 'v \<Rightarrow> ('k, 'v) pydict" where
  "dict_setitem d k v = AList.update k v d"

text \<open>
  \<^verbatim>\<open>str(i)\<close> and the replacement field \<^verbatim>\<open>{i}\<close> of an f-string print an integer in
  decimal, with a leading minus sign when it is negative.
\<close>

definition digit_char :: "nat \<Rightarrow> char" where
  "digit_char d = ''0123456789'' ! d"

function str_nat :: "nat \<Rightarrow> string" where
  "str_nat n = (if n < 10 then [digit_char n] else str_nat (n div 10) @ [digit_char (n mod 10)])"
  by pat_completeness auto
termination
  by (relation "measure (\<lambda>n. n)") auto

declare str_nat.simps [simp del]

definition str_int :: "int \<Rightarrow> string" where
  "str_int i = (if i < 0 then CHR ''-'' # str_nat (nat (- i)) else str_nat (nat i))"

text \<open>\<^verbatim>\<open>range(a, b)\<close>: the integers from \<open>a\<close> up to, not including, \<open>b\<close>.\<close>

definition py_range :: "int \<Rightarrow> int \<Rightarrow> int list" where
  "py_range a b = [a..b - 1]"

section \<open>The module \<^verbatim>\<open>sample_api.py\<close>\<close>

text \<open>
  \<^verbatim>\<open>return [{"id": i, "name": f"User {i}"} for i in range(offset, offset + limit)]\<close>:
  the identifier is the integer \<open>i\<close> itself, and the dictionary has no \<^verbatim>\<open>"email"\<close> key.
\<close>

definition get_users :: "int \<Rightarrow> int \<Rightarrow> user_dict list" where
  "get_users limit offset =
     map (\<lambda>i. [(''id'', PInt i), (''name'', PStr (''User '' @ str_int i))])
       (py_range offset (offset + limit))"

definition get_user_by_id :: "string \<Rightarrow> user_dict option" where
  "get_user_by_id user_id =
     (if user_id = ''not_found'' then None
      else Some [(''id'', PStr user_id), (''name'', PStr ''Test User''),
                 (''email'', PStr ''test@example.com'')])"

definition post_create_user :: "string \<Rightarrow> string \<Rightarrow> user_dict" where
  "post_create_user name email =
     [(''id'', PStr ''usr_new''), (''name'', PStr name), (''email'', PStr email)]"

text \<open>
  \<^verbatim>\<open>validate_input\<close>: \<^verbatim>\<open>not data\<close> holds of \<^verbatim>\<open>None\<close> and of the empty dictionary; the
  loop over the required keys returns at the first key that is missing.
\<close>

fun has_keys :: "string list \<Rightarrow> user_dict \<Rightarrow> bool" where
  "has_keys [] data = True"
| "has_keys (key # keys) data = (if \<not> dict_contains key data then False else has_keys keys data)"

fun validate_input :: "user_dict option \<Rightarrow> bool" where
  "validate_input None = False"
| "validate_input (Some data) =
     (if data = [] then False else has_keys [''name'', ''email''] data)"

text \<open>
  \<^verbatim>\<open>UserService\<close>: one attribute, the dictionary \<^verbatim>\<open>users\<close>, empty after \<^verbatim>\<open>__init__\<close>.
  \<^verbatim>\<open>add_user\<close> runs \<^verbatim>\<open>self.users[user["id"]] = user\<close>. It evaluates \<^verbatim>\<open>user["id"]\<close> first, so
  a missing key raises \<^verbatim>\<open>KeyError\<close>; the store then hashes the value found, so a value
  that cannot be hashed raises \<^verbatim>\<open>TypeError\<close>. Either way the service is left as it was.
  \<^verbatim>\<open>get_user\<close> runs \<^verbatim>\<open>self.users.get(user_id)\<close>, which hashes \<open>user_id\<close> as well.
\<close>

record UserService =
  users :: "(pyval, user_dict) pydict"

definition UserService_init :: UserService where
  "UserService_init = \<lparr>users = []\<rparr>"

definition add_user :: "UserService \<Rightarrow> user_dict \<Rightarrow> py_error + UserService" where
  "add_user self user =
     (case dict_getitem user ''id'' of
        Inl e \<Rightarrow> Inl e
      | Inr k \<Rightarrow>
          if \<not> hashable k then Inl TypeError
          else Inr (self\<lparr>users := dict_setitem (users self) k user\<rparr>))"

definition get_user :: "UserService \<Rightarrow> pyval \<Rightarrow> py_error + user_dict option" where
  "get_user self user_id =
     (if \<not> hashable user_id then Inl TypeError else Inr (dict_get (users self) user_id))"

section \<open>The module \<^verbatim>\<open>sample_api_refactored.py\<close>\<close>

text \<open>
  The dataclass \<^verbatim>\<open>User\<close> has the fields \<^verbatim>\<open>id\<close>, \<^verbatim>\<open>name\<close> and \<^verbatim>\<open>email\<close>, the last with
  the default \<^verbatim>\<open>""\<close>. The field names carry the suffix \<open>_of\<close> here, since \<open>id\<close> is the
  identity function of HOL.
\<close>

record User =
  id_of :: string
  name_of :: string
  email_of :: string

definition get_users_refactored :: "int \<Rightarrow> int \<Rightarrow> User list" where
  "get_users_refactored limit offset =
     map (\<lambda>i. \<lparr>id_of = str_int i, name_of = ''User '' @ str_int i, email_of = ''''\<rparr>)
       (py_range offset (offset + limit))"

definition get_user_by_id_refactored :: "string \<Rightarrow> User option" where
  "get_user_by_id_refactored user_id =
     (if user_id = ''not_found'' then None
      else Some \<lparr>id_of = user_id, name_of = ''Test User'', email_of = ''test@example.com''\<rparr>)"

definition post_create_user_refactored :: "string \<Rightarrow> string \<Rightarrow> User" where
  "post_create_user_refactored name email = \<lparr>id_of = ''usr_new'', name_of = name, email_of = email\<rparr>"

section \<open>Comparing the two modules\<close>

text \<open>
  A dictionary and a \<open>User\<close> carry the same record when the dictionary binds \<^verbatim>\<open>"id"\<close>,
  \<^verbatim>\<open>"name"\<close> and \<^verbatim>\<open>"email"\<close> to the strings held by the three fields.
\<close>

definition same_record :: "user_dict \<Rightarrow> User \<Rightarrow> bool" where
  "same_record d u =
     (dict_get d ''id'' = Some (PStr (id_of u)) \<and>
      dict_get d ''name'' = Some (PStr (name_of u)) \<and>
      dict_get d ''email'' = Some (PStr (email_of u)))"

text \<open>
  The relation that the two list operations do satisfy: the dictionary binds \<^verbatim>\<open>"id"\<close> to
  an integer whose decimal form is the field \<open>id_of\<close>, binds \<^verbatim>\<open>"name"\<close> to the field
  \<open>name_of\<close>, and has no \<^verbatim>\<open>"email"\<close> key where the field \<open>email_of\<close> is the default \<^verbatim>\<open>""\<close>.
\<close>

definition listed_as :: "user_dict \<Rightarrow> User \<Rightarrow> bool" where
  "listed_as d u =
     ((case dict_get d ''id'' of
         Some (PInt k) \<Rightarrow> id_of u = str_int k
       | Some (PStr s) \<Rightarrow> False
       | Some (PList xs) \<Rightarrow> False
       | None \<Rightarrow> False) \<and>
      dict_get d ''name'' = Some (PStr (name_of u)) \<and>
      dict_get d ''email'' = None \<and> email_of u = [])"

section \<open>Sequences of calls\<close>

text \<open>
  A caller holds one \<^verbatim>\<open>UserService\<close> and calls the functions of the two modules one after
  the other. The service's dictionary is the only state there is: a call returns an
  outcome and the service as the call leaves it. An exception raised by \<^verbatim>\<open>add_user\<close> or
  \<^verbatim>\<open>get_user\<close> is an outcome too, and the service is then unchanged.
\<close>

datatype call =
    Get_users int int
  | Get_user_by_id string
  | Post_create_user string string
  | Validate_input "user_dict option"
  | Add_user user_dict
  | Get_user pyval
  | Get_users_refactored int int
  | Get_user_by_id_refactored string
  | Post_create_user_refactored string string

datatype outcome =
    Dicts "user_dict list"
  | Dict_option "user_dict option"
  | Dict user_dict
  | Boolean bool
  | Nothing
  | Raised py_error
  | Users "User list"
  | User_option "User option"
  | A_User User

fun perform :: "UserService \<Rightarrow> call \<Rightarrow> outcome \<times> UserService" where
  "perform self (Get_users limit offset) = (Dicts (get_users limit offset), self)"
| "perform self (Get_user_by_id user_id) = (Dict_option (get_user_by_id user_id), self)"
| "perform self (Post_create_user name email) = (Dict (post_create_user name email), self)"
| "perform self (Validate_input data) = (Boolean (validate_input data), self)"
| "perform self (Add_user user) =
     (case add_user self user of Inl e \<Rightarrow> (Raised e, self) | Inr self' \<Rightarrow> (Nothing, self'))"
| "perform self (Get_user user_id) =
     (case get_user self user_id of Inl e \<Rightarrow> (Raised e, self) | Inr r \<Rightarrow> (Dict_option r, self))"
| "perform self (Get_users_refactored limit offset) =
     (Users (get_users_refactored limit offset), self)"
| "perform self (Get_user_by_id_refactored user_id) =
     (User_option (get_user_by_id_refactored user_id), self)"
| "perform self (Post_create_user_refactored name email) =
     (A_User (post_create_user_refactored name email), self)"

fun perform_all :: "UserService \<Rightarrow> call list \<Rightarrow> UserService" where
  "perform_all self [] = self"
| "perform_all self (c # cs) = perform_all (snd (perform self c)) cs"

section \<open>Auxiliary facts\<close>

subsection \<open>Ranges and decimal strings\<close>

lemma length_py_range: "length (py_range a b) = nat (b - a)"
  by (simp add: py_range_def)

lemma nth_py_range: "i < nat (b - a) \<Longrightarrow> py_range a b ! i = a + int i"
  by (simp add: py_range_def)

lemma py_range_empty: "b \<le> a \<Longrightarrow> py_range a b = []"
  by (simp add: py_range_def)

lemma py_range_one: "py_range a (a + 1) = [a]"
  by (simp add: py_range_def upto.simps)

lemma str_int_0: "str_int 0 = ''0''"
  by (simp add: str_int_def str_nat.simps digit_char_def)

subsection \<open>Dictionaries\<close>

lemma dict_get_setitem:
  "dict_get (dict_setitem d k v) k' = (if k' = k then Some v else dict_get d k')"
  by (simp add: dict_get_def dict_setitem_def update_conv')

lemma dict_contains_get: "dict_contains k d \<longleftrightarrow> dict_get d k \<noteq> None"
  by (simp add: dict_contains_def dict_get_def map_of_eq_None_iff)

lemma distinct_setitem:
  "distinct (map fst d) \<Longrightarrow> distinct (map fst (dict_setitem d k v))"
  by (simp add: dict_setitem_def distinct_update)

lemma setitem_other_items:
  "filter (\<lambda>p. fst p \<noteq> k) (dict_setitem d k v) = filter (\<lambda>p. fst p \<noteq> k) d"
  unfolding dict_setitem_def by (induction d) auto

lemma setitem_own_item:
  "distinct (map fst d) \<Longrightarrow> filter (\<lambda>p. fst p = k) (dict_setitem d k v) = [(k, v)]"
  unfolding dict_setitem_def
proof (induction d)
  case Nil
  then show ?case by simp
next
  case (Cons p d)
  obtain k' v' where p: "p = (k', v')" by (cases p)
  show ?case
  proof (cases "k' = k")
    case True
    with Cons.prems p have "k \<notin> fst ` set d" by simp
    then have "filter (\<lambda>p. fst p = k) d = []"
      by (auto simp: filter_empty_conv)
    with True p show ?thesis by simp
  next
    case False
    with Cons p show ?thesis by simp
  qed
qed

subsection \<open>Validation\<close>

lemma has_keys_iff: "has_keys ks data \<longleftrightarrow> (\<forall>k \<in> set ks. dict_contains k data)"
  by (induction ks) auto

lemma validate_input_Some:
  "validate_input (Some data) \<longleftrightarrow> dict_contains ''name'' data \<and> dict_contains ''email'' data"
  by (auto simp: has_keys_iff dict_contains_def)

subsection \<open>The service and sequences of calls\<close>

lemma add_user_by_id:
  "add_user self user =
     (case dict_get user ''id'' of
        None \<Rightarrow> Inl KeyError
      | Some k \<Rightarrow>
          if hashable k then Inr (self\<lparr>users := dict_setitem (users self) k user\<rparr>)
          else Inl TypeError)"
  by (simp add: add_user_def dict_getitem_def dict_get_def split: option.split)

lemma get_user_hashable:
  "hashable k \<Longrightarrow> get_user self k = Inr (dict_get (users self) k)"
  by (simp add: get_user_def)

lemma perform_distinct:
  "distinct (map fst (users self)) \<Longrightarrow> distinct (map fst (users (snd (perform self c))))"
  by (cases c) (simp_all add: add_user_by_id get_user_def distinct_setitem split: option.split)

lemma perform_all_distinct:
  "distinct (map fst (users self)) \<Longrightarrow> distinct (map fst (users (perform_all self cs)))"
  by (induction cs arbitrary: self) (simp_all add: perform_distinct)

lemma perform_all_append:
  "perform_all self (cs @ ds) = perform_all (perform_all self cs) ds"
  by (induction cs arbitrary: self) simp_all

section \<open>The list operation\<close>

text \<open>
  C1, as the two modules have it. For a non-negative \<open>limit\<close> and a non-negative
  \<open>offset\<close>, \<^verbatim>\<open>get_users\<close> of either module returns exactly \<open>limit\<close> records, in
  order. The \<open>i\<close>-th record of \<^verbatim>\<open>sample_api_refactored.py\<close> has the decimal string of
  \<open>offset + i\<close> as its id, \<^verbatim>\<open>"User "\<close> followed by that string as its name, and the
  default empty email. The \<open>i\<close>-th dictionary of \<^verbatim>\<open>sample_api.py\<close> has the same name,
  no \<^verbatim>\<open>"email"\<close> key, and the integer \<open>offset + i\<close> itself, not its string form, under
  \<^verbatim>\<open>"id"\<close>.
\<close>

theorem get_users_page:
  assumes "0 \<le> limit" and "0 \<le> offset"
  shows "length (get_users limit offset) = nat limit
       \<and> length (get_users_refactored limit offset) = nat limit
       \<and> (\<forall>i < nat limit.
            get_users limit offset ! i =
              [(''id'', PInt (offset + int i)), (''name'', PStr (''User '' @ str_int (offset + int i)))]
          \<and> get_users_refactored limit offset ! i =
              \<lparr>id_of = str_int (offset + int i), name_of = ''User '' @ str_int (offset + int i),
               email_of = ''''\<rparr>)"
  using assms
  by (simp add: get_users_def get_users_refactored_def length_py_range nth_py_range)

theorem get_users_page_witness:
  "length (get_users 2 3) = 2 \<and> length (get_users_refactored 2 3) = 2
   \<and> get_users 2 3 ! 1 = [(''id'', PInt 4), (''name'', PStr ''User 4'')]
   \<and> get_users_refactored 2 3 ! 1 = \<lparr>id_of = ''4'', name_of = ''User 4'', email_of = ''''\<rparr>"
proof -
  have s: "str_int 4 = ''4''"
    by (simp add: str_int_def str_nat.simps digit_char_def)
  have "(0::int) \<le> 2" and "(0::int) \<le> 3" by simp_all
  from get_users_page [OF this] have
    "length (get_users 2 3) = nat 2 \<and> length (get_users_refactored 2 3) = nat 2
       \<and> (\<forall>i < nat 2.
            get_users 2 3 ! i =
              [(''id'', PInt (3 + int i)), (''name'', PStr (''User '' @ str_int (3 + int i)))]
          \<and> get_users_refactored 2 3 ! i =
              \<lparr>id_of = str_int (3 + int i), name_of = ''User '' @ str_int (3 + int i),
               email_of = ''''\<rparr>)" .
  then have "length (get_users 2 3) = nat 2 \<and> length (get_users_refactored 2 3) = nat 2
     \<and> get_users 2 3 ! 1 = [(''id'', PInt (3 + int 1)), (''name'', PStr (''User '' @ str_int (3 + int 1)))]
     \<and> get_users_refactored 2 3 ! 1 =
              \<lparr>id_of = str_int (3 + int 1), name_of = ''User '' @ str_int (3 + int 1),
               email_of = ''''\<rparr>"
    by simp
  then show ?thesis using s by simp
qed

text \<open>
  \<^verbatim>\<open>get_users(1, 0)\<close> of \<^verbatim>\<open>sample_api.py\<close> is \<^verbatim>\<open>[{"id": 0, "name": "User 0"}]\<close>: the id
  of its only record is the integer \<open>0\<close>, not the string \<^verbatim>\<open>"0"\<close>.
\<close>

theorem get_users_id_counterexample:
  "get_users 1 0 = [[(''id'', PInt 0), (''name'', PStr ''User 0'')]]
   \<and> dict_get (get_users 1 0 ! 0) ''id'' \<noteq> Some (PStr (str_int (0 + 0)))"
  using py_range_one [of 0] str_int_0
  by (simp add: get_users_def dict_get_def)

text \<open>
  C9. For a \<open>limit\<close> that is zero or negative and any \<open>offset\<close>, \<^verbatim>\<open>get_users\<close> of either
  module returns the empty list: the range from \<open>offset\<close> to \<open>offset + limit\<close> has no
  element.
\<close>

theorem get_users_nonpositive_limit:
  "limit \<le> 0 \<Longrightarrow> get_users limit offset = [] \<and> get_users_refactored limit offset = []"
  by (simp add: get_users_def get_users_refactored_def py_range_empty)

theorem get_users_nonpositive_limit_witness:
  "(-3::int) \<le> 0 \<and> get_users (-3) 5 = [] \<and> get_users_refactored (-3) 5 = []
   \<and> get_users 0 (-2) = [] \<and> get_users_refactored 0 (-2) = []"
  using get_users_nonpositive_limit [of "-3" 5] get_users_nonpositive_limit [of 0 "-2"]
  by simp

section \<open>The lookup operation\<close>

text \<open>
  C3. \<^verbatim>\<open>get_user_by_id\<close> of either module returns \<^verbatim>\<open>None\<close> exactly when \<open>user_id\<close> is
  the string \<^verbatim>\<open>"not_found"\<close>. For every other string it returns the record with that id,
  the name \<^verbatim>\<open>"Test User"\<close> and the email \<^verbatim>\<open>"test@example.com"\<close>. The function has no
  other outcome.
\<close>

theorem get_user_by_id_sentinel:
  "(get_user_by_id user_id = None \<longleftrightarrow> user_id = ''not_found'') \<and>
   (get_user_by_id_refactored user_id = None \<longleftrightarrow> user_id = ''not_found'') \<and>
   (user_id \<noteq> ''not_found'' \<longrightarrow>
      get_user_by_id user_id =
        Some [(''id'', PStr user_id), (''name'', PStr ''Test User''),
              (''email'', PStr ''test@example.com'')] \<and>
      get_user_by_id_refactored user_id =
        Some \<lparr>id_of = user_id, name_of = ''Test User'', email_of = ''test@example.com''\<rparr>)"
  by (simp add: get_user_by_id_def get_user_by_id_refactored_def)

theorem get_user_by_id_sentinel_witness:
  "get_user_by_id ''not_found'' = None \<and> get_user_by_id_refactored ''not_found'' = None \<and>
   get_user_by_id ''u1'' =
     Some [(''id'', PStr ''u1''), (''name'', PStr ''Test User''),
           (''email'', PStr ''test@example.com'')] \<and>
   get_user_by_id_refactored ''u1'' =
     Some \<lparr>id_of = ''u1'', name_of = ''Test User'', email_of = ''test@example.com''\<rparr> \<and>
   get_user_by_id ''Not_found'' \<noteq> None"
  using get_user_by_id_sentinel [of "''not_found''"] get_user_by_id_sentinel [of "''u1''"]
    get_user_by_id_sentinel [of "''Not_found''"]
  by simp

section \<open>The creation operation\<close>

text \<open>
  C6. \<^verbatim>\<open>post_create_user\<close> of either module returns, for every \<open>name\<close> and \<open>email\<close>, the
  record with the id \<^verbatim>\<open>"usr_new"\<close> and the given name and email unchanged. It checks
  nothing and stores nothing: a service held by the caller is the same after the call.
\<close>

theorem post_create_user_echo:
  "post_create_user name email =
     [(''id'', PStr ''usr_new''), (''name'', PStr name), (''email'', PStr email)] \<and>
   post_create_user_refactored name email =
     \<lparr>id_of = ''usr_new'', name_of = name, email_of = email\<rparr> \<and>
   snd (perform self (Post_create_user name email)) = self \<and>
   snd (perform self (Post_create_user_refactored name email)) = self"
  by (simp add: post_create_user_def post_create_user_refactored_def)

theorem post_create_user_echo_witness:
  "post_create_user ''Alice'' ''a@x.com'' =
     [(''id'', PStr ''usr_new''), (''name'', PStr ''Alice''), (''email'', PStr ''a@x.com'')] \<and>
   post_create_user_refactored ''Alice'' ''a@x.com'' =
     \<lparr>id_of = ''usr_new'', name_of = ''Alice'', email_of = ''a@x.com''\<rparr>"
  using post_create_user_echo [of "''Alice''" "''a@x.com''" UserService_init]
  by simp

section \<open>Input validation\<close>

text \<open>
  C4. \<^verbatim>\<open>validate_input\<close> returns \<^verbatim>\<open>False\<close> for \<^verbatim>\<open>None\<close> and for the empty
  dictionary, and for a dictionary it returns \<^verbatim>\<open>True\<close> exactly when both \<^verbatim>\<open>"name"\<close> and
  \<^verbatim>\<open>"email"\<close> are among its keys. The answer depends on the keys alone, not on the
  values bound to them, and a further key never turns \<^verbatim>\<open>True\<close> into \<^verbatim>\<open>False\<close>. The
  function is total: it has no failing branch.
\<close>

theorem validate_input_presence:
  "validate_input None = False \<and> validate_input (Some []) = False \<and>
   (validate_input (Some data) \<longleftrightarrow>
      dict_contains ''name'' data \<and> dict_contains ''email'' data) \<and>
   (map fst data = map fst data' \<longrightarrow> validate_input (Some data) = validate_input (Some data')) \<and>
   (validate_input (Some data) \<longrightarrow> validate_input (Some (dict_setitem data k v)))"
proof -
  have absent: "validate_input None = False" and empty: "validate_input (Some []) = False"
    by simp_all
  have more: "dict_contains k' d \<Longrightarrow> dict_contains k' (dict_setitem d k v)" for k' d
    by (simp add: dict_contains_def dict_setitem_def dom_update)
  have same_keys: "dict_contains k' data = dict_contains k' data'"
    if "map fst data = map fst data'" for k'
    using that by (simp only: dict_contains_def)
  have by_keys: "map fst data = map fst data' \<longrightarrow>
      validate_input (Some data) = validate_input (Some data')"
    by (simp only: validate_input_Some) (simp add: same_keys)
  have extra: "validate_input (Some data) \<longrightarrow> validate_input (Some (dict_setitem data k v))"
    by (simp only: validate_input_Some) (simp add: more)
  from absent empty validate_input_Some [of data] by_keys extra show ?thesis
    by blast
qed

theorem validate_input_presence_witness:
  "validate_input (Some []) = False \<and>
   validate_input (Some [(''name'', PStr ''a'')]) = False \<and>
   validate_input (Some [(''name'', PStr ''a''), (''email'', PStr ''b'')]) = True \<and>
   validate_input (Some [(''name'', PInt 1), (''email'', PInt 2)]) = True \<and>
   validate_input (Some [(''name'', PStr ''a''), (''email'', PStr ''b''), (''x'', PInt 0)]) = True"
  using validate_input_presence
    [of "[(''name'', PStr ''a''), (''email'', PStr ''b'')]" "[(''name'', PInt 1), (''email'', PInt 2)]"
      "''x''" "PInt 0"]
    validate_input_presence [of "[(''name'', PStr ''a'')]"]
  by (simp add: dict_contains_def dict_setitem_def)

section \<open>The in-memory store\<close>

text \<open>
  C5. For every service, every record \<open>r\<close> whose \<^verbatim>\<open>"id"\<close> is \<open>k\<close>, a string or an integer:
  \<^verbatim>\<open>add_user(r)\<close> succeeds and a following \<^verbatim>\<open>get_user(k)\<close> returns exactly \<open>r\<close>. This holds
  also when another record \<open>prev\<close> with the same id was added just before: the later
  insertion wins. \<^verbatim>\<open>get_user(k)\<close> on a service whose dictionary has no key \<open>k\<close> returns
  \<^verbatim>\<open>None\<close>.
\<close>

theorem add_user_then_get_user:
  "(dict_get r ''id'' = Some k \<and> hashable k \<longrightarrow>
      (\<exists>self'. add_user self r = Inr self' \<and> get_user self' k = Inr (Some r))) \<and>
   (dict_get prev ''id'' = Some k \<and> dict_get r ''id'' = Some k \<and> hashable k \<longrightarrow>
      (\<exists>self1 self2. add_user self prev = Inr self1 \<and> add_user self1 r = Inr self2 \<and>
         get_user self2 k = Inr (Some r))) \<and>
   (hashable k \<and> \<not> dict_contains k (users self) \<longrightarrow> get_user self k = Inr None)"
  by (simp add: add_user_by_id get_user_def dict_get_setitem dict_contains_get)

theorem add_user_then_get_user_witness:
  "get_user \<lparr>users = [(PStr ''u1'', [(''id'', PStr ''u1''), (''name'', PStr ''B'')])]\<rparr> (PStr ''u1'')
     = Inr (Some [(''id'', PStr ''u1''), (''name'', PStr ''B'')]) \<and>
   get_user UserService_init (PStr ''missing'') = Inr None"
proof -
  let ?a = "[(''id'', PStr ''u1''), (''name'', PStr ''A'')]"
  let ?b = "[(''id'', PStr ''u1''), (''name'', PStr ''B'')]"
  have a: "dict_get ?a ''id'' = Some (PStr ''u1'')" and b: "dict_get ?b ''id'' = Some (PStr ''u1'')"
    by (simp_all add: dict_get_def)
  have h: "hashable (PStr ''u1'')" and h': "hashable (PStr ''missing'')"
    by simp_all
  have missing: "\<not> dict_contains (PStr ''missing'') (users UserService_init)"
    by (simp add: dict_contains_def UserService_init_def)
  from add_user_then_get_user
    [where r = ?b and prev = ?a and k = "PStr ''u1''" and self = UserService_init] a b h
  obtain self1 self2 where "add_user UserService_init ?a = Inr self1"
    and "add_user self1 ?b = Inr self2" and "get_user self2 (PStr ''u1'') = Inr (Some ?b)"
    by blast
  moreover from add_user_then_get_user
    [where r = ?b and prev = ?a and k = "PStr ''missing''" and self = UserService_init] missing h'
  have "get_user UserService_init (PStr ''missing'') = Inr None"
    by blast
  ultimately show ?thesis
    by (auto simp: add_user_def dict_getitem_def dict_setitem_def UserService_init_def)
qed

text \<open>
  C7. A new service holds no record. After any finite sequence of calls made on a new
  service, each key occurs once among the items of its dictionary, so there is at most
  one record per id; and when a record with the id \<open>k\<close>, a string or an integer, is added
  after such a sequence, that record is the one item the dictionary then holds for \<open>k\<close>,
  whatever was stored for \<open>k\<close> before.
\<close>

theorem UserService_one_record_per_id:
  "users UserService_init = [] \<and>
   distinct (map fst (users (perform_all UserService_init cs))) \<and>
   (dict_get user ''id'' = Some k \<and> hashable k \<longrightarrow>
      filter (\<lambda>p. fst p = k) (users (perform_all UserService_init (cs @ [Add_user user])))
        = [(k, user)])"
proof -
  let ?s = "perform_all UserService_init cs"
  have init: "users UserService_init = []"
    by (simp add: UserService_init_def)
  then have inv: "distinct (map fst (users ?s))"
    by (simp add: perform_all_distinct)
  have "filter (\<lambda>p. fst p = k) (users (perform_all ?s [Add_user user])) = [(k, user)]"
    if "dict_get user ''id'' = Some k" and "hashable k"
    using that inv by (simp add: add_user_by_id setitem_own_item)
  with init inv show ?thesis
    by (simp add: perform_all_append)
qed

theorem UserService_one_record_per_id_witness:
  "users (perform_all UserService_init
      [Add_user [(''id'', PStr ''u1''), (''name'', PStr ''A'')], Get_user (PStr ''u1''),
       Add_user [(''id'', PStr ''u1''), (''name'', PStr ''B'')]])
     = [(PStr ''u1'', [(''id'', PStr ''u1''), (''name'', PStr ''B'')])]"
proof -
  let ?a = "[(''id'', PStr ''u1''), (''name'', PStr ''A'')]"
  let ?b = "[(''id'', PStr ''u1''), (''name'', PStr ''B'')]"
  have id: "dict_get ?b ''id'' = Some (PStr ''u1'')"
    by (simp add: dict_get_def)
  have h: "hashable (PStr ''u1'')"
    by simp
  have "filter (\<lambda>p. fst p = PStr ''u1'')
          (users (perform_all UserService_init ([Add_user ?a, Get_user (PStr ''u1'')] @ [Add_user ?b])))
        = [(PStr ''u1'', ?b)]"
    using UserService_one_record_per_id [of "[Add_user ?a, Get_user (PStr ''u1'')]" ?b "PStr ''u1''"] id h
    by blast
  then show ?thesis
    by (simp add: UserService_init_def add_user_def get_user_def dict_getitem_def dict_setitem_def)
qed

text \<open>
  C10, as the code has it. \<^verbatim>\<open>add_user(user)\<close> raises \<^verbatim>\<open>KeyError\<close> exactly when \<open>user\<close> has
  no key \<^verbatim>\<open>"id"\<close>. When the key is there and its value \<open>k\<close> can be hashed, the call
  succeeds, and every other key of the store has the record, and the item, it had before.
  When the key is there and its value cannot be hashed, the call raises \<^verbatim>\<open>TypeError\<close>.
\<close>

theorem add_user_KeyError:
  "(add_user self user = Inl KeyError \<longleftrightarrow> \<not> dict_contains ''id'' user) \<and>
   (dict_get user ''id'' = Some k \<and> hashable k \<longrightarrow>
      (\<exists>self'. add_user self user = Inr self' \<and>
         (\<forall>k'. k' \<noteq> k \<longrightarrow> get_user self' k' = get_user self k') \<and>
         filter (\<lambda>p. fst p \<noteq> k) (users self') = filter (\<lambda>p. fst p \<noteq> k) (users self))) \<and>
   (dict_get user ''id'' = Some k \<and> \<not> hashable k \<longrightarrow> add_user self user = Inl TypeError)"
proof -
  have missing: "add_user self user = Inl KeyError \<longleftrightarrow> \<not> dict_contains ''id'' user"
    by (simp add: add_user_by_id dict_contains_get split: option.split)
  have stored: "\<exists>self'. add_user self user = Inr self' \<and>
         (\<forall>k'. k' \<noteq> k \<longrightarrow> get_user self' k' = get_user self k') \<and>
         filter (\<lambda>p. fst p \<noteq> k) (users self') = filter (\<lambda>p. fst p \<noteq> k) (users self)"
    if "dict_get user ''id'' = Some k" and "hashable k"
    using that by (simp add: add_user_by_id get_user_def dict_get_setitem setitem_other_items)
  have refused: "add_user self user = Inl TypeError"
    if "dict_get user ''id'' = Some k" and "\<not> hashable k"
    using that by (simp add: add_user_by_id)
  from missing stored refused show ?thesis
    by blast
qed

theorem add_user_KeyError_witness:
  "add_user UserService_init [(''name'', PStr ''A'')] = Inl KeyError \<and>
   add_user \<lparr>users = [(PInt 7, [(''id'', PInt 7)])]\<rparr> [(''id'', PStr ''u1''), (''name'', PStr ''A'')]
     = Inr \<lparr>users = [(PInt 7, [(''id'', PInt 7)]),
                     (PStr ''u1'', [(''id'', PStr ''u1''), (''name'', PStr ''A'')])]\<rparr> \<and>
   add_user UserService_init [(''id'', PList [PStr ''x'']), (''name'', PStr ''A'')] = Inl TypeError"
proof -
  let ?s = "\<lparr>users = [(PInt 7, [(''id'', PInt 7)])]\<rparr>"
  let ?u = "[(''id'', PStr ''u1''), (''name'', PStr ''A'')]"
  let ?l = "[(''id'', PList [PStr ''x'']), (''name'', PStr ''A'')]"
  have "\<not> dict_contains ''id'' [(''name'', PStr ''A'')]"
    by (simp add: dict_contains_def)
  with add_user_KeyError [of UserService_init "[(''name'', PStr ''A'')]"]
  have missing: "add_user UserService_init [(''name'', PStr ''A'')] = Inl KeyError"
    by blast
  have "dict_get ?u ''id'' = Some (PStr ''u1'')" and "hashable (PStr ''u1'')"
    by (simp_all add: dict_get_def)
  with add_user_KeyError [of ?s ?u "PStr ''u1''"]
  obtain self' where "add_user ?s ?u = Inr self'"
    by blast
  then have stored: "add_user ?s ?u = Inr \<lparr>users = [(PInt 7, [(''id'', PInt 7)]), (PStr ''u1'', ?u)]\<rparr>"
    by (simp add: add_user_def dict_getitem_def dict_setitem_def)
  have "dict_get ?l ''id'' = Some (PList [PStr ''x''])" and "\<not> hashable (PList [PStr ''x''])"
    by (simp_all add: dict_get_def)
  with add_user_KeyError [of UserService_init ?l "PList [PStr ''x'']"]
  have refused: "add_user UserService_init ?l = Inl TypeError"
    by blast
  from missing stored refused show ?thesis
    by simp
qed

text \<open>
  \<^verbatim>\<open>add_user({"id": ["x"], "name": "A"})\<close>: the key \<^verbatim>\<open>"id"\<close> is present, and the call does
  not succeed. It raises \<^verbatim>\<open>TypeError\<close>, which is not a key-lookup error, since a list
  cannot be a key of the store.
\<close>

theorem add_user_unhashable_counterexample:
  "dict_contains ''id'' [(''id'', PList [PStr ''x'']), (''name'', PStr ''A'')] \<and>
   add_user UserService_init [(''id'', PList [PStr ''x'']), (''name'', PStr ''A'')] = Inl TypeError"
  by (simp add: dict_contains_def add_user_def dict_getitem_def)

section \<open>The refactored module against the original\<close>

text \<open>
  C2, as the two modules have it. On every input the lookup and the creation operation
  of \<^verbatim>\<open>sample_api_refactored.py\<close> return the record of \<^verbatim>\<open>sample_api.py\<close>: the same id,
  name and email (and \<^verbatim>\<open>None\<close> on the same input). The two list operations return lists
  of the same length whose records have the same name at each position; the record of
  the refactored module has the decimal string of the integer that the dictionary of
  the original module holds under \<^verbatim>\<open>"id"\<close>, and the empty email where the dictionary
  has no \<^verbatim>\<open>"email"\<close> key.
\<close>

theorem refactored_corresponds:
  "rel_option same_record (get_user_by_id user_id) (get_user_by_id_refactored user_id) \<and>
   same_record (post_create_user name email) (post_create_user_refactored name email) \<and>
   list_all2 listed_as (get_users limit offset) (get_users_refactored limit offset)"
  by (simp add: get_user_by_id_def get_user_by_id_refactored_def post_create_user_def
      post_create_user_refactored_def get_users_def get_users_refactored_def same_record_def
      listed_as_def dict_get_def list_all2_map1 list_all2_map2 list_all2_same)

theorem refactored_corresponds_witness:
  "same_record (post_create_user ''Alice'' ''a@x.com'') (post_create_user_refactored ''Alice'' ''a@x.com'') \<and>
   get_user_by_id_refactored ''not_found'' = None \<and>
   list_all2 listed_as (get_users 2 3) (get_users_refactored 2 3)"
  using refactored_corresponds [of "''not_found''" "''Alice''" "''a@x.com''" 2 3]
  by (simp add: get_user_by_id_def)

text \<open>
  \<^verbatim>\<open>get_users(1, 0)\<close>: the original returns \<^verbatim>\<open>[{"id": 0, "name": "User 0"}]\<close>, the
  refactored module \<^verbatim>\<open>[User(id="0", name="User 0", email="")]\<close>. The two do not hold the same
  id and email values.
\<close>

theorem refactored_same_record_counterexample:
  "get_users 1 0 = [[(''id'', PInt 0), (''name'', PStr ''User 0'')]] \<and>
   get_users_refactored 1 0 = [\<lparr>id_of = ''0'', name_of = ''User 0'', email_of = ''''\<rparr>] \<and>
   \<not> list_all2 same_record (get_users 1 0) (get_users_refactored 1 0)"
  using py_range_one [of 0] str_int_0
  by (simp add: get_users_def get_users_refactored_def same_record_def dict_get_def)

end
